theory Spec2Isabelle
  imports Main "HOL-Library.Multiset"
begin

section \<open>Data model of the chat interface\<close>

text \<open>
  The chat component keeps four pieces of React state (\<^verbatim>\<open>messages\<close>, \<^verbatim>\<open>newMessage\<close>,
  \<^verbatim>\<open>loading\<close>, \<^verbatim>\<open>queryMode\<close>) and receives three props (\<^verbatim>\<open>currentUser\<close>,
  \<^verbatim>\<open>recipient\<close>, \<^verbatim>\<open>recipientType\<close>). A message is the JSON object the component reads
  and builds; only the fields the component touches are kept.

  The \<^verbatim>\<open>timestamp\<close> field of a message is \<open>Some t\<close> when it denotes the instant \<open>t\<close>, a
  whole number of milliseconds since the epoch (an ISO string or a number), and \<open>None\<close>
  when it denotes none (missing or unparseable). Fractions of a millisecond are not
  represented.

  Strings are lists of \<^typ>\<open>char\<close>, read as code units below 256.
\<close>

record source =
  source_type :: string
  source_sender_id :: string
  document_name :: string
  chunk_index :: nat

record message =
  msg_id :: string
  content :: string
  sender_id :: string
  recipient_id :: string
  timestamp :: "int option"
  sources :: "source list option"

record user =
  user_id :: string

record recipient =
  rcpt_id :: string
  rcpt_name :: string

record props =
  currentUser :: user
  recipient :: "recipient option"
  recipientType :: string

record chat_state =
  messages :: "message list"
  newMessage :: string
  loading :: bool
  queryMode :: bool

text \<open>
  What a handler can throw inside its \<^verbatim>\<open>try\<close> block: a \<^verbatim>\<open>TypeError\<close> (reading
  \<^verbatim>\<open>recipient.id\<close> of a missing recipient) or the error axios rejects with (network
  failure, non-2xx status).
\<close>

datatype error = TypeError | AxiosError string

record request =
  req_method :: string
  url :: string
  payload :: "(string \<times> string) list"
  authorization :: string

record rag_data =
  answer :: string
  rag_sources :: "source list option"

text \<open>
  The world outside the component: the token in \<^verbatim>\<open>localStorage\<close>, the backend's answer
  to each of the three requests, and the system clock (\<open>now w k\<close> is the value of the
  \<open>k\<close>-th clock read of a handler).
\<close>

record world =
  token :: "string option"
  get_messages :: "request \<Rightarrow> error + message list"
  post_message :: "request \<Rightarrow> error + message"
  post_rag_query :: "request \<Rightarrow> error + rag_data"
  now :: "nat \<Rightarrow> int"

text \<open>
  A handler's result: the component state once the handler has finished, the requests it
  issued, and the lines it wrote with \<^verbatim>\<open>console.error\<close>.
\<close>

record result =
  final :: chat_state
  requests :: "request list"
  console :: "(string \<times> error) list"

section \<open>Platform functions\<close>

text \<open>Decimal rendering of a number, as a template literal or a JSX text node does it.\<close>

fun string_of_nat :: "nat \<Rightarrow> string" where
  "string_of_nat n =
     (if n < 10 then [char_of (48 + n)]
      else string_of_nat (n div 10) @ [char_of (48 + n mod 10)])"

declare string_of_nat.simps [simp del]

definition string_of_int :: "int \<Rightarrow> string" where
  "string_of_int i =
     (if i < 0 then CHR ''-'' # string_of_nat (nat (- i)) else string_of_nat (nat i))"

text \<open>
  \<^verbatim>\<open>String.prototype.trim\<close>: strips the ECMAScript white space and line terminator code
  units from both ends (those below 256: TAB, LF, VT, FF, CR, SP, NBSP).
\<close>

definition WhiteSpace :: "char \<Rightarrow> bool" where
  "WhiteSpace c = (c \<in> set [CHR 0x09, CHR 0x0A, CHR 0x0B, CHR 0x0C, CHR 0x0D, CHR 0x20, CHR 0xA0])"

definition trim :: "string \<Rightarrow> string" where
  "trim s = rev (dropWhile WhiteSpace (rev (dropWhile WhiteSpace s)))"

text \<open>
  \<^verbatim>\<open>Array.prototype.sort\<close> with a comparator: a stable sort (ECMAScript 2019). An element
  goes before the first later element it does not compare greater than. For a comparator
  that is a consistent ordering every stable sort gives this list; for any other
  comparator ECMAScript leaves the order to the implementation, and this is one.
\<close>

fun insert_sorted :: "('a \<Rightarrow> 'a \<Rightarrow> int) \<Rightarrow> 'a \<Rightarrow> 'a list \<Rightarrow> 'a list" where
  "insert_sorted c x [] = [x]"
| "insert_sorted c x (y # ys) =
     (if c x y \<le> 0 then x # y # ys else y # insert_sorted c x ys)"

fun array_sort :: "('a \<Rightarrow> 'a \<Rightarrow> int) \<Rightarrow> 'a list \<Rightarrow> 'a list" where
  "array_sort c [] = []"
| "array_sort c (x # xs) = insert_sorted c x (array_sort c xs)"

text \<open>
  The comparator's result is a number or \<^verbatim>\<open>NaN\<close> (\<open>None\<close>); the sort reads \<^verbatim>\<open>NaN\<close> as
  \<open>+0\<close>.
\<close>

definition sort_compare :: "('a \<Rightarrow> 'a \<Rightarrow> int option) \<Rightarrow> 'a \<Rightarrow> 'a \<Rightarrow> int" where
  "sort_compare c a b = (case c a b of None \<Rightarrow> 0 | Some v \<Rightarrow> v)"

text \<open>
  The time value of \<^verbatim>\<open>new Date(ts)\<close>: the instant itself when it lies within
  8.64e15 milliseconds of the epoch, and \<^verbatim>\<open>NaN\<close> (\<open>None\<close>, an invalid date) otherwise.
\<close>

definition Date_time :: "int option \<Rightarrow> int option" where
  "Date_time ts =
     (case ts of
        None \<Rightarrow> None
      | Some t \<Rightarrow> if \<bar>t\<bar> \<le> 8640000000000000 then Some t else None)"

text \<open>\<^verbatim>\<open>`Bearer ${localStorage.getItem('token')}`\<close>: a missing token prints as \<^verbatim>\<open>null\<close>.\<close>

definition bearer :: "world \<Rightarrow> string" where
  "bearer w = ''Bearer '' @ (case token w of None \<Rightarrow> ''null'' | Some t \<Rightarrow> t)"

section \<open>Fetching the history\<close>

text \<open>
  The comparator passed to \<^verbatim>\<open>sort\<close> in \<^verbatim>\<open>fetchMessages\<close>,
  \<^verbatim>\<open>new Date(a.timestamp) - new Date(b.timestamp)\<close>: the difference of the two time
  values, \<^verbatim>\<open>NaN\<close> when either date is invalid. Two valid time values are integers of
  magnitude at most 8.64e15, so the floating-point difference has the sign of the integer
  difference, which is all the sort reads.
\<close>

definition compare_timestamp :: "message \<Rightarrow> message \<Rightarrow> int option" where
  "compare_timestamp a b =
     (case (Date_time (timestamp a), Date_time (timestamp b)) of
        (Some x, Some y) \<Rightarrow> Some (x - y)
      | _ \<Rightarrow> None)"

definition fetch_request :: "props \<Rightarrow> world \<Rightarrow> recipient \<Rightarrow> request" where
  "fetch_request p w r =
     \<lparr>req_method = ''GET'', url = ''/api/messages'',
      payload = [(''recipient_id'', rcpt_id r), (''recipient_type'', recipientType p)],
      authorization = bearer w\<rparr>"

text \<open>
  \<^verbatim>\<open>fetchMessages\<close>: the whole body is inside \<^verbatim>\<open>try\<close>; the \<^verbatim>\<open>catch\<close> logs and resets
  the loading flag. Reading \<^verbatim>\<open>recipient.id\<close> of a missing recipient throws before the
  request is issued.
\<close>

definition fetchMessages :: "props \<Rightarrow> world \<Rightarrow> chat_state \<Rightarrow> result" where
  "fetchMessages p w s =
     (let s1 = s\<lparr>loading := True\<rparr> in
      case recipient p of
        None \<Rightarrow>
          \<lparr>final = s1\<lparr>loading := False\<rparr>, requests = [],
           console = [(''Error fetching messages:'', TypeError)]\<rparr>
      | Some r \<Rightarrow>
          (let req = fetch_request p w r in
           case get_messages w req of
             Inl e \<Rightarrow>
               \<lparr>final = s1\<lparr>loading := False\<rparr>, requests = [req],
                console = [(''Error fetching messages:'', e)]\<rparr>
           | Inr data \<Rightarrow>
               (let sortedMessages = array_sort (sort_compare compare_timestamp) data in
                \<lparr>final = s1\<lparr>messages := sortedMessages, loading := False\<rparr>,
                 requests = [req], console = []\<rparr>)))"

text \<open>
  The effect that runs on mount and whenever \<^verbatim>\<open>recipient\<close> or \<^verbatim>\<open>recipientType\<close>
  changes: it fetches only when both are truthy.
\<close>

definition on_recipient_change :: "props \<Rightarrow> world \<Rightarrow> chat_state \<Rightarrow> result" where
  "on_recipient_change p w s =
     (if recipient p \<noteq> None \<and> recipientType p \<noteq> [] then fetchMessages p w s
      else \<lparr>final = s, requests = [], console = []\<rparr>)"

section \<open>Sending\<close>

definition rag_request :: "world \<Rightarrow> string \<Rightarrow> request" where
  "rag_request w text =
     \<lparr>req_method = ''POST'', url = ''/api/rag/query'',
      payload = [(''query'', text)], authorization = bearer w\<rparr>"

definition message_request :: "props \<Rightarrow> world \<Rightarrow> recipient \<Rightarrow> string \<Rightarrow> request" where
  "message_request p w r text =
     \<lparr>req_method = ''POST'', url = ''/api/messages'',
      payload = [(''content'', text), (''recipient_id'', rcpt_id r),
                 (''recipient_type'', recipientType p)],
      authorization = bearer w\<rparr>"

text \<open>The two messages the query mode builds locally, with the four clock reads in order.\<close>

definition userQuery :: "props \<Rightarrow> world \<Rightarrow> recipient \<Rightarrow> string \<Rightarrow> message" where
  "userQuery p w r text =
     \<lparr>msg_id = ''temp-'' @ string_of_int (now w 0), content = text,
      sender_id = user_id (currentUser p), recipient_id = rcpt_id r,
      timestamp = Some (now w 1), sources = None\<rparr>"

definition ragResponse :: "world \<Rightarrow> recipient \<Rightarrow> rag_data \<Rightarrow> message" where
  "ragResponse w r d =
     \<lparr>msg_id = ''rag-'' @ string_of_int (now w 2), content = answer d,
      sender_id = ''rag-assistant'', recipient_id = rcpt_id r,
      timestamp = Some (now w 3), sources = rag_sources d\<rparr>"

definition send_failed :: "chat_state \<Rightarrow> request list \<Rightarrow> error \<Rightarrow> result" where
  "send_failed s reqs e =
     \<lparr>final = s\<lparr>loading := False\<rparr>, requests = reqs,
      console = [(''Error sending message:'', e)]\<rparr>"

text \<open>
  \<^verbatim>\<open>sendMessage\<close>: a blank input returns at once. In query mode the request is issued
  before \<^verbatim>\<open>recipient.id\<close> is read; in direct mode \<^verbatim>\<open>recipient.id\<close> is read while the
  request body is built, before the request is issued.
\<close>

definition sendMessage :: "props \<Rightarrow> world \<Rightarrow> chat_state \<Rightarrow> result" where
  "sendMessage p w s =
     (if trim (newMessage s) = [] then \<lparr>final = s, requests = [], console = []\<rparr>
      else if queryMode s then
        (let req = rag_request w (newMessage s) in
         case post_rag_query w req of
           Inl e \<Rightarrow> send_failed s [req] e
         | Inr d \<Rightarrow>
             (case recipient p of
                None \<Rightarrow> send_failed s [req] TypeError
              | Some r \<Rightarrow>
                  \<lparr>final = s\<lparr>messages := messages s @
                                 [userQuery p w r (newMessage s), ragResponse w r d],
                             newMessage := [], loading := False\<rparr>,
                   requests = [req], console = []\<rparr>))
      else
        (case recipient p of
           None \<Rightarrow> send_failed s [] TypeError
         | Some r \<Rightarrow>
             (let req = message_request p w r (newMessage s) in
              case post_message w req of
                Inl e \<Rightarrow> send_failed s [req] e
              | Inr m \<Rightarrow>
                  \<lparr>final = s\<lparr>messages := messages s @ [m],
                             newMessage := [], loading := False\<rparr>,
                   requests = [req], console = []\<rparr>)))"

text \<open>
  A handler succeeded when it issued its request and its \<^verbatim>\<open>catch\<close> block did not run.
\<close>

definition succeeded :: "result \<Rightarrow> bool" where
  "succeeded res = (requests res \<noteq> [] \<and> console res = [])"


text \<open>A message whose timestamp makes a valid \<^verbatim>\<open>Date\<close>.\<close>

definition valid_timestamp :: "message \<Rightarrow> bool" where
  "valid_timestamp m = (Date_time (timestamp m) \<noteq> None)"

text \<open>
  The store is sorted ascending by timestamp when every message carries a timestamp no
  later than those of the messages after it.
\<close>

definition not_after :: "message \<Rightarrow> message \<Rightarrow> bool" where
  "not_after a b =
     (case (timestamp a, timestamp b) of (Some x, Some y) \<Rightarrow> x \<le> y | _ \<Rightarrow> False)"

definition sorted_by_timestamp :: "message list \<Rightarrow> bool" where
  "sorted_by_timestamp ms = sorted_wrt not_after ms"

section \<open>Session guard\<close>

text \<open>
  Modelled from the spec: the component \<^verbatim>\<open>ProtectedRoute\<close> (imported by the router from
  \<^verbatim>\<open>./pages/auth/ProtectedRoute\<close>) is not among the sources. The spec gives its contract:
  protected navigation is permitted iff the session token is present and non-empty;
  otherwise the guard redirects to \<^verbatim>\<open>/login\<close>; it mutates nothing and throws nothing.
\<close>

datatype guard_result = Redirect string | Render_children

definition ProtectedRoute :: "string option \<Rightarrow> guard_result" where
  "ProtectedRoute tok =
     (case tok of
        None \<Rightarrow> Redirect ''/login''
      | Some t \<Rightarrow> if t = [] then Redirect ''/login'' else Render_children)"

section \<open>Router\<close>

text \<open>
  The route table of \<^verbatim>\<open>App\<close>, as the JSX declares it. \<open>Guarded_Layout\<close> is the element
  \<^verbatim>\<open><ProtectedRoute><Layout /></ProtectedRoute>\<close>.
\<close>

datatype element =
    Navigate string
  | LoginPage
  | SignupPage
  | Guarded_Layout
  | Dashboard
  | CreateGroupPage
  | GroupPage
  | CreateCommunityPage
  | CommunityPage

datatype route =
  Route (path: "string option") (index: bool) (element: element) (children: "route list")

definition index_route :: route where
  "index_route = Route None True (Navigate ''/dashboard'') []"

definition layout_route :: route where
  "layout_route =
     Route (Some ''/'') False Guarded_Layout
       [index_route,
        Route (Some ''dashboard'') False Dashboard [],
        Route (Some ''groups/create'') False CreateGroupPage [],
        Route (Some ''groups/:groupId'') False GroupPage [],
        Route (Some ''communities/create'') False CreateCommunityPage [],
        Route (Some ''communities/:communityId'') False CommunityPage []]"

definition fallback_route :: route where
  "fallback_route = Route (Some ''*'') False (Navigate ''/dashboard'') []"

definition App :: "route list" where
  "App =
     [Route (Some ''/login'') False LoginPage [],
      Route (Some ''/signup'') False SignupPage [],
      layout_route,
      fallback_route]"

text \<open>
  Route matching as React Router 6 does it (\<^verbatim>\<open>matchRoutes\<close>): the table is flattened
  into branches (a route's children first, then the route itself unless it has neither a
  path nor the index flag), each branch gets a score from the segments of its joined path,
  the branches are ranked by descending score (siblings of equal score by position, others
  keep their order), and the first branch whose pattern matches the decoded pathname wins.
\<close>

fun split_on :: "'a \<Rightarrow> 'a list \<Rightarrow> 'a list list" where
  "split_on c [] = [[]]"
| "split_on c (x # xs) =
     (if x = c then [] # split_on c xs
      else (case split_on c xs of [] \<Rightarrow> [[x]] | s # ss \<Rightarrow> (x # s) # ss))"

text \<open>\<^verbatim>\<open>joinPaths\<close>: join with a slash, then collapse runs of slashes.\<close>

fun collapse_slashes :: "string \<Rightarrow> string" where
  "collapse_slashes (a # b # cs) =
     (if a = CHR ''/'' \<and> b = CHR ''/'' then collapse_slashes (b # cs)
      else a # collapse_slashes (b # cs))"
| "collapse_slashes cs = cs"

definition joinPaths :: "string \<Rightarrow> string \<Rightarrow> string" where
  "joinPaths parent rel = collapse_slashes (parent @ ''/'' @ rel)"

record branch =
  branch_path :: string
  score :: int
  indexes :: "nat list"
  routes :: "route list"

definition isSplat :: "string \<Rightarrow> bool" where
  "isSplat s = (s = ''*'')"

text \<open>\<^verbatim>\<open>paramRe\<close> is \<^verbatim>\<open>/^:[\w-]+$/\<close>.\<close>

definition word_char :: "char \<Rightarrow> bool" where
  "word_char c =
     (let n = (of_char c :: nat) in
      (97 \<le> n \<and> n \<le> 122) \<or> (65 \<le> n \<and> n \<le> 90) \<or> (48 \<le> n \<and> n \<le> 57)
      \<or> c = CHR ''_'' \<or> c = CHR ''-'')"

definition isParam :: "string \<Rightarrow> bool" where
  "isParam s = (case s of [] \<Rightarrow> False | c # cs \<Rightarrow> c = CHR '':'' \<and> cs \<noteq> [] \<and> list_all word_char cs)"

definition segment_value :: "string \<Rightarrow> int" where
  "segment_value s = (if isParam s then 3 else if s = [] then 1 else 10)"

definition computeScore :: "string \<Rightarrow> bool \<Rightarrow> int" where
  "computeScore p idx =
     (let segments = split_on CHR ''/'' p;
          initialScore = int (length segments)
                         + (if list_ex isSplat segments then - 2 else 0)
                         + (if idx then 2 else 0)
      in initialScore + sum_list (map segment_value (filter (\<lambda>s. \<not> isSplat s) segments)))"

fun flattenRoute :: "nat list \<Rightarrow> route list \<Rightarrow> string \<Rightarrow> nat \<Rightarrow> route \<Rightarrow> branch list"
  and flattenRoutes :: "nat list \<Rightarrow> route list \<Rightarrow> string \<Rightarrow> nat \<Rightarrow> route list \<Rightarrow> branch list"
where
  "flattenRoute is parents parentPath i (Route p idx e cs) =
     (let relativePath = (case p of None \<Rightarrow> [] | Some q \<Rightarrow> q);
          relativePath' = (if take 1 relativePath = ''/''
                           then drop (length parentPath) relativePath else relativePath);
          full = joinPaths parentPath relativePath';
          meta = parents @ [Route p idx e cs]
      in flattenRoutes (is @ [i]) meta full 0 cs
         @ (if p = None \<and> \<not> idx then []
            else [\<lparr>branch_path = full, score = computeScore full idx,
                   indexes = is @ [i], routes = meta\<rparr>]))"
| "flattenRoutes is parents parentPath i [] = []"
| "flattenRoutes is parents parentPath i (r # rs) =
     flattenRoute is parents parentPath i r @ flattenRoutes is parents parentPath (Suc i) rs"

definition compareIndexes :: "nat list \<Rightarrow> nat list \<Rightarrow> int" where
  "compareIndexes a b =
     (if length a = length b \<and> butlast a = butlast b \<and> a \<noteq> []
      then int (last a) - int (last b) else 0)"

definition compare_branches :: "branch \<Rightarrow> branch \<Rightarrow> int" where
  "compare_branches a b =
     (if score a \<noteq> score b then score b - score a
      else compareIndexes (indexes a) (indexes b))"

definition rankRouteBranches :: "branch list \<Rightarrow> branch list" where
  "rankRouteBranches bs = array_sort compare_branches bs"

text \<open>
  \<^verbatim>\<open>decodeURIComponent\<close>, as ECMAScript defines it: an escape \<^verbatim>\<open>%XX\<close> below 0x80 is
  that code unit; a lead byte announces one to three continuation escapes, whose octets
  must be the UTF-8 encoding of a code point, which is written in UTF-16; anything else
  (a truncated or non-hexadecimal escape, a stray continuation byte, an overlong or
  surrogate encoding) throws, here \<open>None\<close>. The input is read one character at a time.
  A decoded string is a list of UTF-16 code units.
\<close>

definition hex_value :: "char \<Rightarrow> nat option" where
  "hex_value c =
     (let n = (of_char c :: nat) in
      if 48 \<le> n \<and> n \<le> 57 then Some (n - 48)
      else if 65 \<le> n \<and> n \<le> 70 then Some (n - 55)
      else if 97 \<le> n \<and> n \<le> 102 then Some (n - 87)
      else None)"

definition leading_ones :: "nat \<Rightarrow> nat" where
  "leading_ones b =
     (if b < 128 then 0 else if b < 192 then 1 else if b < 224 then 2
      else if b < 240 then 3 else if b < 248 then 4 else 5)"

definition continuation :: "nat \<Rightarrow> bool" where
  "continuation b = (128 \<le> b \<and> b < 192)"

definition utf8_code_point :: "nat list \<Rightarrow> nat option" where
  "utf8_code_point bs =
     (case bs of
        [a, b] \<Rightarrow>
          (let cp = (a - 192) * 64 + (b - 128) in
           if continuation b \<and> 128 \<le> cp then Some cp else None)
      | [a, b, c] \<Rightarrow>
          (let cp = (a - 224) * 4096 + (b - 128) * 64 + (c - 128) in
           if continuation b \<and> continuation c \<and> 2048 \<le> cp
              \<and> \<not> (55296 \<le> cp \<and> cp \<le> 57343)
           then Some cp else None)
      | [a, b, c, d] \<Rightarrow>
          (let cp = (a - 240) * 262144 + (b - 128) * 4096 + (c - 128) * 64 + (d - 128) in
           if continuation b \<and> continuation c \<and> continuation d
              \<and> 65536 \<le> cp \<and> cp \<le> 1114111
           then Some cp else None)
      | _ \<Rightarrow> None)"

definition utf16_encode :: "nat \<Rightarrow> nat list" where
  "utf16_encode cp =
     (if cp < 65536 then [cp]
      else [55296 + (cp - 65536) div 1024, 56320 + (cp - 65536) mod 1024])"

datatype escape = No_escape | Percent | Hex1 nat

record decoder =
  out :: "nat list"
  esc :: escape
  octets :: "nat list"
  pending :: nat

definition add_octet :: "decoder \<Rightarrow> nat \<Rightarrow> decoder option" where
  "add_octet st b =
     (if pending st = 0 then
        (let n = leading_ones b in
         if n = 0 then Some (st\<lparr>out := out st @ [b]\<rparr>)
         else if n = 1 \<or> n > 4 then None
         else Some (st\<lparr>octets := [b], pending := n - 1\<rparr>))
      else if pending st = 1 then
        (case utf8_code_point (octets st @ [b]) of
           None \<Rightarrow> None
         | Some cp \<Rightarrow> Some (st\<lparr>out := out st @ utf16_encode cp, octets := [], pending := 0\<rparr>))
      else Some (st\<lparr>octets := octets st @ [b], pending := pending st - 1\<rparr>))"

definition decode_step :: "decoder \<Rightarrow> char \<Rightarrow> decoder option" where
  "decode_step st c =
     (case esc st of
        No_escape \<Rightarrow>
          if c = CHR ''%'' then Some (st\<lparr>esc := Percent\<rparr>)
          else if pending st > 0 then None
          else Some (st\<lparr>out := out st @ [of_char c]\<rparr>)
      | Percent \<Rightarrow>
          (case hex_value c of None \<Rightarrow> None | Some h \<Rightarrow> Some (st\<lparr>esc := Hex1 h\<rparr>))
      | Hex1 h \<Rightarrow>
          (case hex_value c of
             None \<Rightarrow> None
           | Some l \<Rightarrow> add_octet (st\<lparr>esc := No_escape\<rparr>) (16 * h + l)))"

fun decode_from :: "decoder \<Rightarrow> string \<Rightarrow> decoder option" where
  "decode_from st [] = Some st"
| "decode_from st (c # cs) =
     (case decode_step st c of None \<Rightarrow> None | Some st' \<Rightarrow> decode_from st' cs)"

definition decodeURIComponent :: "string \<Rightarrow> nat list option" where
  "decodeURIComponent v =
     (case decode_from \<lparr>out = [], esc = No_escape, octets = [], pending = 0\<rparr> v of
        None \<Rightarrow> None
      | Some st \<Rightarrow> if esc st = No_escape \<and> pending st = 0 then Some (out st) else None)"

text \<open>
  \<^verbatim>\<open>decodePath\<close> (React Router 6.30): every segment of the pathname is decoded and a
  decoded slash is written back as \<^verbatim>\<open>%2F\<close>; when any segment is malformed the pathname
  is matched as it stands.
\<close>

definition units_of :: "string \<Rightarrow> nat list" where
  "units_of v = map of_char v"

definition escape_slash :: "nat list \<Rightarrow> nat list" where
  "escape_slash us = concat (map (\<lambda>u. if u = 47 then [37, 50, 70] else [u]) us)"

fun join_slash :: "nat list list \<Rightarrow> nat list" where
  "join_slash [] = []"
| "join_slash [s] = s"
| "join_slash (s # t # ts) = s @ 47 # join_slash (t # ts)"

definition decodePath :: "string \<Rightarrow> nat list" where
  "decodePath v =
     (case those (map decodeURIComponent (split_on CHR ''/'' v)) of
        None \<Rightarrow> units_of v
      | Some segs \<Rightarrow> join_slash (map escape_slash segs))"

text \<open>
  A pattern is matched against the decoded pathname as its regular expression does:
  segment by segment, ignoring letter case and trailing slashes; a parameter matches one
  non-empty segment; a final \<^verbatim>\<open>*\<close> matches whatever is left unless it holds a line
  terminator, which the \<^verbatim>\<open>.\<close> of \<^verbatim>\<open>(.*)\<close> does not match. The patterns of the table are
  ASCII, so folding ASCII letters is the whole of the \<^verbatim>\<open>i\<close> flag.
\<close>

definition to_upper :: "nat \<Rightarrow> nat" where
  "to_upper n = (if 97 \<le> n \<and> n \<le> 122 then n - 32 else n)"

definition line_terminator :: "nat \<Rightarrow> bool" where
  "line_terminator u = (u = 10 \<or> u = 13 \<or> u = 8232 \<or> u = 8233)"

fun strip_trailing_empty :: "'a list list \<Rightarrow> 'a list list" where
  "strip_trailing_empty [] = []"
| "strip_trailing_empty (s # ss) =
     (case strip_trailing_empty ss of
        [] \<Rightarrow> (if s = [] then [] else [s])
      | t # ts \<Rightarrow> s # t # ts)"

text \<open>The segments of a pathname after its leading slash; none for a string without one.\<close>

definition pathname_segments :: "nat list \<Rightarrow> nat list list option" where
  "pathname_segments pathname =
     (case split_on 47 pathname of
        [] # rest \<Rightarrow> if pathname = [] then None else Some (strip_trailing_empty rest)
      | _ \<Rightarrow> None)"

definition pattern_segments :: "string \<Rightarrow> string list" where
  "pattern_segments p = filter (\<lambda>s. s \<noteq> []) (split_on CHR ''/'' p)"

fun match_segments :: "string list \<Rightarrow> nat list list \<Rightarrow> bool" where
  "match_segments [] ss = (ss = [])"
| "match_segments (p # ps) ss =
     (if isSplat p \<and> ps = [] then list_all (\<lambda>s. \<not> list_ex line_terminator s) ss
      else (case ss of
              [] \<Rightarrow> False
            | s # ss' \<Rightarrow>
                (if isParam p then s \<noteq> []
                 else map to_upper s = map to_upper (units_of p))
                \<and> match_segments ps ss'))"

definition matchPath :: "string \<Rightarrow> nat list \<Rightarrow> bool" where
  "matchPath pattern pathname =
     (case pathname_segments pathname of
        None \<Rightarrow> False
      | Some ss \<Rightarrow> match_segments (pattern_segments pattern) ss)"

text \<open>An empty pathname is read as the root; the pathname is decoded, then matched.\<close>

definition decoded_pathname :: "string \<Rightarrow> nat list" where
  "decoded_pathname pathname = decodePath (if pathname = [] then ''/'' else pathname)"

definition matchRoutes :: "route list \<Rightarrow> string \<Rightarrow> route list option" where
  "matchRoutes rs pathname =
     map_option routes
       (find (\<lambda>b. matchPath (branch_path b) (decoded_pathname pathname))
          (rankRouteBranches (flattenRoutes [] [] [] 0 rs)))"

text \<open>
  What \<^verbatim>\<open><Routes>\<close> mounts for a match: the outermost route's element, with the rest of
  the branch offered as its outlet. \<^verbatim>\<open>Navigate\<close> redirects when it mounts. The guard
  mounts its children (\<^verbatim>\<open><Layout />\<close>) only when it permits. \<^verbatim>\<open>Layout\<close> renders its
  \<^verbatim>\<open>children\<close> prop, which \<^verbatim>\<open>App\<close> does not pass, and no outlet.
\<close>

datatype view =
    Redirected string
  | Page element
  | Layout_shell "view option"
  | Blank

definition Layout :: "view option \<Rightarrow> view option \<Rightarrow> view" where
  "Layout children_prop outlet = Layout_shell children_prop"

fun render_branch :: "string option \<Rightarrow> route list \<Rightarrow> view option" where
  "render_branch tok [] = None"
| "render_branch tok (r # rest) =
     Some (case element r of
             Navigate target \<Rightarrow> Redirected target
           | Guarded_Layout \<Rightarrow>
               (case ProtectedRoute tok of
                  Redirect target \<Rightarrow> Redirected target
                | Render_children \<Rightarrow> Layout None (render_branch tok rest))
           | e \<Rightarrow> Page e)"

text \<open>Visiting a pathname with a given session token; no match renders nothing.\<close>

definition visit :: "string option \<Rightarrow> string \<Rightarrow> view" where
  "visit tok pathname =
     (case matchRoutes App pathname of
        None \<Rightarrow> Blank
      | Some b \<Rightarrow> (case render_branch tok b of None \<Rightarrow> Blank | Some v \<Rightarrow> v))"


section \<open>Rendering the sources of an answer\<close>

definition source_item :: "source \<Rightarrow> string" where
  "source_item src =
     (if source_type src = ''message'' then ''Message from '' @ source_sender_id src
      else if source_type src = ''document_chunk''
      then document_name src @ '' (chunk '' @ string_of_nat (chunk_index src) @ '')''
      else ''Unknown source'')"

text \<open>The children of the \<^verbatim>\<open><ul>\<close>: one item per source of \<^verbatim>\<open>slice(0, 3)\<close>, then the summary.\<close>

definition source_items :: "source list \<Rightarrow> string list" where
  "source_items ss =
     map source_item (take 3 ss)
     @ (if length ss > 3 then [''+'' @ string_of_nat (length ss - 3) @ '' more sources''] else [])"

text \<open>
  The block is rendered only for a message of the synthetic sender whose \<^verbatim>\<open>sources\<close> is
  truthy (an array, even an empty one).
\<close>

definition render_sources :: "message \<Rightarrow> string list option" where
  "render_sources m =
     (if sender_id m = ''rag-assistant''
      then (case sources m of None \<Rightarrow> None | Some ss \<Rightarrow> Some (source_items ss))
      else None)"

section \<open>Example inputs\<close>

text \<open>Concrete props, backends and states on which the theorems below are instantiated.\<close>

definition example_message :: "string \<Rightarrow> int \<Rightarrow> message" where
  "example_message i t =
     \<lparr>msg_id = i, content = ''hi'', sender_id = ''u2'', recipient_id = ''u1'',
      timestamp = Some t, sources = None\<rparr>"

definition example_source :: "string \<Rightarrow> source" where
  "example_source ty =
     \<lparr>source_type = ty, source_sender_id = ''u2'', document_name = ''notes.pdf'',
      chunk_index = 12\<rparr>"

definition example_props :: props where
  "example_props =
     \<lparr>currentUser = \<lparr>user_id = ''u1''\<rparr>,
      recipient = Some \<lparr>rcpt_id = ''u2'', rcpt_name = ''Bob''\<rparr>,
      recipientType = ''user''\<rparr>"

text \<open>A backend that answers every request; its direct-message reply is stamped 5.\<close>

definition example_world :: world where
  "example_world =
     \<lparr>token = Some ''tok'',
      get_messages = (\<lambda>_. Inr [example_message ''m3'' 30, example_message ''m1'' 10,
                                 example_message ''m2'' 10]),
      post_message = (\<lambda>_. Inr (example_message ''m0'' 5)),
      post_rag_query = (\<lambda>_. Inr \<lparr>answer = ''42'',
                                    rag_sources = Some [example_source ''message'']\<rparr>),
      now = (\<lambda>k. 100 + int k)\<rparr>"

text \<open>A backend whose every request fails.\<close>

definition failing_world :: world where
  "failing_world =
     \<lparr>token = Some ''tok'',
      get_messages = (\<lambda>_. Inl (AxiosError ''Network Error'')),
      post_message = (\<lambda>_. Inl (AxiosError ''Network Error'')),
      post_rag_query = (\<lambda>_. Inl (AxiosError ''Network Error'')),
      now = (\<lambda>k. 100 + int k)\<rparr>"

text \<open>The same backend, except that its direct-message reply is stamped 40.\<close>

definition timely_world :: world where
  "timely_world = example_world\<lparr>post_message := (\<lambda>_. Inr (example_message ''m4'' 40))\<rparr>"

text \<open>
  A backend whose history holds a numeric timestamp beyond the range of \<^verbatim>\<open>Date\<close>.
\<close>

definition clipped_world :: world where
  "clipped_world =
     example_world\<lparr>get_messages :=
       (\<lambda>_. Inr [example_message ''big'' 9000000000000000, example_message ''small'' 5])\<rparr>"

definition direct_state :: chat_state where
  "direct_state =
     \<lparr>messages = [example_message ''m1'' 10], newMessage = ''hello'',
      loading = False, queryMode = False\<rparr>"

definition query_state :: chat_state where
  "query_state =
     \<lparr>messages = [example_message ''m1'' 10], newMessage = ''why?'',
      loading = False, queryMode = True\<rparr>"

text \<open>A store whose message is stamped later than the local clock reads.\<close>

definition future_state :: chat_state where
  "future_state =
     \<lparr>messages = [example_message ''m9'' 500], newMessage = ''why?'',
      loading = False, queryMode = True\<rparr>"

definition blank_state :: chat_state where
  "blank_state =
     \<lparr>messages = [example_message ''m1'' 10], newMessage = ''   '',
      loading = False, queryMode = False\<rparr>"

definition rag_message :: message where
  "rag_message =
     \<lparr>msg_id = ''rag-1'', content = ''42'', sender_id = ''rag-assistant'',
      recipient_id = ''u2'', timestamp = Some 7,
      sources = Some [example_source ''message'', example_source ''document_chunk'',
                      example_source ''web'', example_source ''message'',
                      example_source ''message'']\<rparr>"

section \<open>Sorting\<close>

lemma mset_insert_sorted: "mset (insert_sorted c x ys) = add_mset x (mset ys)"
  by (induction ys) simp_all

lemma mset_array_sort: "mset (array_sort c xs) = mset xs"
  by (induction xs) (simp_all add: mset_insert_sorted)

lemma set_array_sort: "set (array_sort c xs) = set xs"
  using mset_array_sort [of c xs] by (metis set_mset_mset)

text \<open>The time value of a message with a valid timestamp.\<close>

lemma valid_timestamp_Some:
  "valid_timestamp m \<Longrightarrow> \<exists>t. timestamp m = Some t \<and> Date_time (timestamp m) = Some t"
  by (auto simp: valid_timestamp_def Date_time_def split: option.splits if_splits)

lemma compare_valid:
  assumes "valid_timestamp a" and "valid_timestamp b"
  shows "sort_compare compare_timestamp a b = the (timestamp a) - the (timestamp b)"
  using valid_timestamp_Some [OF assms(1)] valid_timestamp_Some [OF assms(2)]
  by (auto simp: sort_compare_def compare_timestamp_def)

lemma insert_sorted_insort_key:
  assumes "valid_timestamp x" and "\<forall>y\<in>set ys. valid_timestamp y"
  shows "insert_sorted (sort_compare compare_timestamp) x ys
           = insort_key (\<lambda>m. the (timestamp m)) x ys"
  using assms(2)
proof (induction ys)
  case Nil
  then show ?case by simp
next
  case (Cons y ys)
  then have "valid_timestamp y" by simp
  with assms(1) have "sort_compare compare_timestamp x y = the (timestamp x) - the (timestamp y)"
    by (rule compare_valid)
  with Cons show ?case by simp
qed

lemma array_sort_sort_key:
  assumes "\<forall>m\<in>set xs. valid_timestamp m"
  shows "array_sort (sort_compare compare_timestamp) xs = sort_key (\<lambda>m. the (timestamp m)) xs"
  using assms
proof (induction xs)
  case Nil
  then show ?case by simp
next
  case (Cons x xs)
  then have ih: "array_sort (sort_compare compare_timestamp) xs
                   = sort_key (\<lambda>m. the (timestamp m)) xs"
    by simp
  from Cons.prems have "valid_timestamp x" "\<forall>y\<in>set (sort_key (\<lambda>m. the (timestamp m)) xs). valid_timestamp y"
    by simp_all
  then show ?case
    by (simp add: ih insert_sorted_insort_key)
qed

lemma not_after_valid:
  "valid_timestamp a \<Longrightarrow> valid_timestamp b \<Longrightarrow>
     not_after a b \<longleftrightarrow> the (timestamp a) \<le> the (timestamp b)"
  by (auto simp: not_after_def dest!: valid_timestamp_Some)

lemma sorted_array_sort:
  assumes "\<forall>m\<in>set xs. valid_timestamp m"
  shows "sorted_by_timestamp (array_sort (sort_compare compare_timestamp) xs)"
proof -
  let ?k = "\<lambda>m. the (timestamp m)"
  have "sorted (map ?k (sort_key ?k xs))" by simp
  then have "sorted_wrt (\<lambda>a b. ?k a \<le> ?k b) (sort_key ?k xs)"
    by (simp add: sorted_map)
  moreover have "\<forall>m\<in>set (sort_key ?k xs). valid_timestamp m" using assms by simp
  ultimately have "sorted_wrt not_after (sort_key ?k xs)"
    by (auto intro: sorted_wrt_mono_rel [rotated] simp: not_after_valid)
  then show ?thesis
    by (simp add: sorted_by_timestamp_def array_sort_sort_key [OF assms])
qed

lemma stable_array_sort:
  assumes "\<forall>m\<in>set xs. valid_timestamp m"
  shows "filter (\<lambda>m. timestamp m = Some t) (array_sort (sort_compare compare_timestamp) xs)
           = filter (\<lambda>m. timestamp m = Some t) xs"
proof -
  let ?k = "\<lambda>m. the (timestamp m)"
  have eq: "filter (\<lambda>m. timestamp m = Some t) ys = filter (\<lambda>m. ?k m = t) ys"
    if "\<forall>m\<in>set ys. valid_timestamp m" for ys
    using that by (intro filter_cong) (auto dest!: valid_timestamp_Some)
  have v: "\<forall>m\<in>set (sort_key ?k xs). valid_timestamp m" using assms by simp
  show ?thesis
    by (simp add: array_sort_sort_key [OF assms] eq [OF v] eq [OF assms] sort_key_stable)
qed

lemma fetchMessages_success:
  assumes "recipient p = Some r" and "get_messages w (fetch_request p w r) = Inr data"
  shows "fetchMessages p w s =
     \<lparr>final = s\<lparr>messages := array_sort (sort_compare compare_timestamp) data, loading := False\<rparr>,
      requests = [fetch_request p w r], console = []\<rparr>"
  using assms by (simp add: fetchMessages_def)

lemma example_clipped_fetch:
  "messages (final (fetchMessages example_props clipped_world direct_state))
     = [example_message ''big'' 9000000000000000, example_message ''small'' 5]"
  by (simp add: fetchMessages_def example_props_def clipped_world_def example_world_def
      sort_compare_def compare_timestamp_def Date_time_def example_message_def)

text \<open>
  Claim C1, as stated, fails when a returned timestamp makes no valid \<^verbatim>\<open>Date\<close>: the
  comparator yields \<^verbatim>\<open>NaN\<close>, the sort leaves the order, and the store ends with the
  message stamped 9e15 before the message stamped 5.
\<close>

theorem fetch_keeps_unsorted_answer:
  "succeeded (fetchMessages example_props clipped_world direct_state)
   \<and> map timestamp (messages (final (fetchMessages example_props clipped_world direct_state)))
       = [Some 9000000000000000, Some 5]
   \<and> \<not> sorted_by_timestamp
         (messages (final (fetchMessages example_props clipped_world direct_state)))"
proof -
  have 1: "succeeded (fetchMessages example_props clipped_world direct_state)"
    by (simp add: succeeded_def fetchMessages_def example_props_def clipped_world_def
        example_world_def)
  have 2: "map timestamp (messages (final (fetchMessages example_props clipped_world direct_state)))
       = [Some 9000000000000000, Some 5]"
    by (simp add: example_clipped_fetch example_message_def)
  have 3: "\<not> sorted_by_timestamp
         (messages (final (fetchMessages example_props clipped_world direct_state)))"
    by (simp add: example_clipped_fetch sorted_by_timestamp_def not_after_def example_message_def)
  from 1 2 3 show ?thesis by blast
qed

text \<open>
  Claim C1, amended. When the recipient is present and the backend answers the history
  request with a list, \<^verbatim>\<open>fetchMessages\<close> replaces the store with a permutation of that
  list: nothing of the previous store contents survives (the result is the same from any
  previous state). When every returned message carries a timestamp that makes a valid
  \<^verbatim>\<open>Date\<close>, the store is sorted non-decreasing by timestamp and messages of equal
  timestamp keep their arrival order.
\<close>

theorem fetchMessages_sorts_and_replaces:
  assumes "recipient p = Some r" and "get_messages w (fetch_request p w r) = Inr data"
  shows "mset (messages (final (fetchMessages p w s))) = mset data
       \<and> messages (final (fetchMessages p w s)) = messages (final (fetchMessages p w s'))
       \<and> ((\<forall>m\<in>set data. valid_timestamp m) \<longrightarrow>
            sorted_by_timestamp (messages (final (fetchMessages p w s)))
            \<and> (\<forall>t. filter (\<lambda>m. timestamp m = Some t) (messages (final (fetchMessages p w s)))
                   = filter (\<lambda>m. timestamp m = Some t) data))"
  using assms
  by (simp add: fetchMessages_success sorted_array_sort mset_array_sort stable_array_sort)

lemma example_fetch:
  "messages (final (fetchMessages example_props example_world direct_state))
     = [example_message ''m1'' 10, example_message ''m2'' 10, example_message ''m3'' 30]"
  by (simp add: fetchMessages_def example_props_def example_world_def
      sort_compare_def compare_timestamp_def Date_time_def example_message_def)

text \<open>The theorem at a concrete input.\<close>

theorem fetchMessages_sorts_and_replaces_witness:
  "messages (final (fetchMessages example_props example_world direct_state))
     = [example_message ''m1'' 10, example_message ''m2'' 10, example_message ''m3'' 30]
   \<and> sorted_by_timestamp (messages (final (fetchMessages example_props example_world direct_state)))"
proof -
  let ?data = "[example_message ''m3'' 30, example_message ''m1'' 10, example_message ''m2'' 10]"
  have r: "recipient example_props = Some \<lparr>rcpt_id = ''u2'', rcpt_name = ''Bob''\<rparr>"
    by (simp add: example_props_def)
  have g: "get_messages example_world
             (fetch_request example_props example_world \<lparr>rcpt_id = ''u2'', rcpt_name = ''Bob''\<rparr>)
           = Inr ?data"
    by (simp add: example_world_def)
  have v: "list_all valid_timestamp ?data"
    by (simp add: valid_timestamp_def Date_time_def example_message_def)
  from fetchMessages_sorts_and_replaces [OF r g, of direct_state direct_state] v
  have "sorted_by_timestamp (messages (final (fetchMessages example_props example_world direct_state)))"
    by (simp add: list_all_iff)
  with example_fetch show ?thesis by blast
qed

lemma trim_Nil_iff: "trim t = [] \<longleftrightarrow> (\<forall>c\<in>set t. WhiteSpace c)"
proof
  assume "trim t = []"
  then have all: "\<forall>c\<in>set (dropWhile WhiteSpace t). WhiteSpace c"
    by (simp add: trim_def dropWhile_eq_Nil_conv)
  have "dropWhile WhiteSpace t = []"
  proof (rule ccontr)
    assume ne: "dropWhile WhiteSpace t \<noteq> []"
    then have "\<not> WhiteSpace (hd (dropWhile WhiteSpace t))" by (rule hd_dropWhile)
    moreover have "hd (dropWhile WhiteSpace t) \<in> set (dropWhile WhiteSpace t)"
      using ne by simp
    ultimately show False using all by blast
  qed
  then show "\<forall>c\<in>set t. WhiteSpace c" by (simp add: dropWhile_eq_Nil_conv)
next
  assume "\<forall>c\<in>set t. WhiteSpace c"
  then show "trim t = []" by (auto simp: trim_def dest: set_dropWhileD)
qed


text \<open>
  Claim C4. In either mode, sending an input that is empty or consists of white space only
  does nothing: the state (store, input text, loading flag, mode) is unchanged, no request
  is issued and nothing is logged.
\<close>

theorem blank_send_is_noop:
  assumes "\<forall>c\<in>set (newMessage s). WhiteSpace c"
  shows "sendMessage p w s = \<lparr>final = s, requests = [], console = []\<rparr>"
  using assms trim_Nil_iff [of "newMessage s"] by (simp add: sendMessage_def)

text \<open>The theorem at a concrete input.\<close>

theorem blank_send_is_noop_witness:
  "list_all WhiteSpace (newMessage blank_state)
   \<and> sendMessage example_props example_world blank_state
       = \<lparr>final = blank_state, requests = [], console = []\<rparr>
   \<and> sendMessage example_props example_world (blank_state\<lparr>newMessage := [], queryMode := True\<rparr>)
       = \<lparr>final = blank_state\<lparr>newMessage := [], queryMode := True\<rparr>, requests = [], console = []\<rparr>"
proof -
  have h: "\<forall>c\<in>set (newMessage blank_state). WhiteSpace c"
    by (simp add: blank_state_def WhiteSpace_def)
  have h': "\<forall>c\<in>set (newMessage (blank_state\<lparr>newMessage := [], queryMode := True\<rparr>)). WhiteSpace c"
    by simp
  from h have l: "list_all WhiteSpace (newMessage blank_state)"
    by (simp add: list_all_iff)
  show ?thesis
    using l blank_send_is_noop [OF h, of example_props example_world]
      blank_send_is_noop [OF h', of example_props example_world]
    by simp
qed

lemma sendMessage_cases:
  "sendMessage p w s = \<lparr>final = s, requests = [], console = []\<rparr> \<and> trim (newMessage s) = []
   \<or> (\<exists>reqs e. sendMessage p w s = send_failed s reqs e \<and> trim (newMessage s) \<noteq> [])
   \<or> (\<exists>r m. \<not> queryMode s \<and> trim (newMessage s) \<noteq> [] \<and> recipient p = Some r
         \<and> post_message w (message_request p w r (newMessage s)) = Inr m
         \<and> sendMessage p w s =
             \<lparr>final = s\<lparr>messages := messages s @ [m], newMessage := [], loading := False\<rparr>,
              requests = [message_request p w r (newMessage s)], console = []\<rparr>)
   \<or> (\<exists>r d. queryMode s \<and> trim (newMessage s) \<noteq> [] \<and> recipient p = Some r
         \<and> post_rag_query w (rag_request w (newMessage s)) = Inr d
         \<and> sendMessage p w s =
             \<lparr>final = s\<lparr>messages := messages s @
                            [userQuery p w r (newMessage s), ragResponse w r d],
                        newMessage := [], loading := False\<rparr>,
              requests = [rag_request w (newMessage s)], console = []\<rparr>)"
  by (auto simp: sendMessage_def Let_def split: sum.splits option.splits)

lemma sendMessage_outcome:
  obtains
    (blank) "trim (newMessage s) = []"
      "sendMessage p w s = \<lparr>final = s, requests = [], console = []\<rparr>"
  | (thrown) reqs e where "trim (newMessage s) \<noteq> []"
      "sendMessage p w s = send_failed s reqs e"
  | (direct) r m where "\<not> queryMode s" "trim (newMessage s) \<noteq> []" "recipient p = Some r"
      "post_message w (message_request p w r (newMessage s)) = Inr m"
      "sendMessage p w s =
         \<lparr>final = s\<lparr>messages := messages s @ [m], newMessage := [], loading := False\<rparr>,
          requests = [message_request p w r (newMessage s)], console = []\<rparr>"
  | (query) r d where "queryMode s" "trim (newMessage s) \<noteq> []" "recipient p = Some r"
      "post_rag_query w (rag_request w (newMessage s)) = Inr d"
      "sendMessage p w s =
         \<lparr>final = s\<lparr>messages := messages s @
                        [userQuery p w r (newMessage s), ragResponse w r d],
                    newMessage := [], loading := False\<rparr>,
          requests = [rag_request w (newMessage s)], console = []\<rparr>"
  using sendMessage_cases [of p w s] by blast

lemma trim_nonempty: "trim t \<noteq> [] \<Longrightarrow> t \<noteq> []"
  by (auto simp: trim_def)

text \<open>
  Claim C3. A successful send in direct mode appends exactly the one message the server
  returned; a successful send in query mode appends exactly two messages, first the echo
  of the query (temporary id built from the clock, the input text, the current user as
  sender, the local clock as timestamp), then the answer of the synthetic sender
  \<^verbatim>\<open>rag-assistant\<close> with the answer text and the sources the backend returned.
\<close>

theorem successful_send_appends:
  assumes "succeeded (sendMessage p w s)"
  shows "(\<not> queryMode s \<longrightarrow>
           (\<exists>r m. recipient p = Some r
              \<and> post_message w (message_request p w r (newMessage s)) = Inr m
              \<and> messages (final (sendMessage p w s)) = messages s @ [m]))
       \<and> (queryMode s \<longrightarrow>
           (\<exists>r d echo resp. recipient p = Some r
              \<and> post_rag_query w (rag_request w (newMessage s)) = Inr d
              \<and> messages (final (sendMessage p w s)) = messages s @ [echo, resp]
              \<and> msg_id echo = ''temp-'' @ string_of_int (now w 0)
              \<and> content echo = newMessage s
              \<and> sender_id echo = user_id (currentUser p)
              \<and> timestamp echo = Some (now w 1)
              \<and> sender_id resp = ''rag-assistant''
              \<and> content resp = answer d
              \<and> sources resp = rag_sources d))"
proof (cases rule: sendMessage_outcome [of s p w])
  case blank
  with assms show ?thesis by (simp add: succeeded_def)
next
  case (thrown reqs e)
  with assms show ?thesis by (simp add: succeeded_def send_failed_def)
next
  case (direct r m)
  then show ?thesis by simp
next
  case (query r d)
  have "msg_id (userQuery p w r (newMessage s)) = ''temp-'' @ string_of_int (now w 0)"
    "content (userQuery p w r (newMessage s)) = newMessage s"
    "sender_id (userQuery p w r (newMessage s)) = user_id (currentUser p)"
    "timestamp (userQuery p w r (newMessage s)) = Some (now w 1)"
    "sender_id (ragResponse w r d) = ''rag-assistant''"
    "content (ragResponse w r d) = answer d"
    "sources (ragResponse w r d) = rag_sources d"
    by (simp_all add: userQuery_def ragResponse_def)
  with query show ?thesis by simp
qed

text \<open>
  Claim C5. The input text is cleared exactly when the send succeeded. A send succeeds
  exactly when the input is not blank, the recipient is present and the backend answers
  the request of the current mode; then the input, which was not empty, becomes empty.
  In every other case (the request throws, the recipient is missing, the input is blank)
  the input text is what it was.
\<close>

theorem input_cleared_iff_success:
  "(succeeded (sendMessage p w s) \<longleftrightarrow>
      trim (newMessage s) \<noteq> []
      \<and> (\<exists>r. recipient p = Some r
            \<and> (if queryMode s
                then \<exists>d. post_rag_query w (rag_request w (newMessage s)) = Inr d
                else \<exists>m. post_message w (message_request p w r (newMessage s)) = Inr m)))
   \<and> (succeeded (sendMessage p w s) \<longleftrightarrow>
      newMessage (final (sendMessage p w s)) = [] \<and> newMessage s \<noteq> [])
   \<and> (\<not> succeeded (sendMessage p w s) \<longrightarrow>
        newMessage (final (sendMessage p w s)) = newMessage s)
   \<and> (queryMode s \<and> (\<exists>e. post_rag_query w (rag_request w (newMessage s)) = Inl e) \<longrightarrow>
        newMessage (final (sendMessage p w s)) = newMessage s)
   \<and> (\<not> queryMode s
        \<and> (\<forall>r. recipient p = Some r \<longrightarrow>
               (\<exists>e. post_message w (message_request p w r (newMessage s)) = Inl e)) \<longrightarrow>
        newMessage (final (sendMessage p w s)) = newMessage s)"
proof (cases rule: sendMessage_outcome [of s p w])
  case blank
  then show ?thesis by (simp add: succeeded_def)
next
  case (thrown reqs e)
  have "\<not> (\<exists>r. recipient p = Some r
            \<and> (if queryMode s
                then \<exists>d. post_rag_query w (rag_request w (newMessage s)) = Inr d
                else \<exists>m. post_message w (message_request p w r (newMessage s)) = Inr m))"
  proof
    assume "\<exists>r. recipient p = Some r
            \<and> (if queryMode s
                then \<exists>d. post_rag_query w (rag_request w (newMessage s)) = Inr d
                else \<exists>m. post_message w (message_request p w r (newMessage s)) = Inr m)"
    then have "console (sendMessage p w s) = []"
      using thrown(1) by (auto simp: sendMessage_def split: if_splits)
    with thrown(2) show False by (simp add: send_failed_def)
  qed
  with thrown show ?thesis by (simp add: succeeded_def send_failed_def)
next
  case (direct r m)
  then show ?thesis by (simp add: succeeded_def trim_nonempty)
next
  case (query r d)
  then show ?thesis by (simp add: succeeded_def trim_nonempty)
qed


text \<open>The handlers evaluated on the example inputs.\<close>

lemma example_direct_send:
  "sendMessage example_props example_world direct_state =
     \<lparr>final = direct_state\<lparr>messages := messages direct_state @ [example_message ''m0'' 5],
                            newMessage := [], loading := False\<rparr>,
      requests = [message_request example_props example_world
                    \<lparr>rcpt_id = ''u2'', rcpt_name = ''Bob''\<rparr> ''hello''],
      console = []\<rparr>"
  by (simp add: sendMessage_def example_props_def example_world_def direct_state_def
      trim_def WhiteSpace_def)

lemma example_query_send:
  "sendMessage example_props example_world query_state =
     \<lparr>final = query_state\<lparr>messages := messages query_state @
            [userQuery example_props example_world \<lparr>rcpt_id = ''u2'', rcpt_name = ''Bob''\<rparr> ''why?'',
             ragResponse example_world \<lparr>rcpt_id = ''u2'', rcpt_name = ''Bob''\<rparr>
               \<lparr>answer = ''42'', rag_sources = Some [example_source ''message'']\<rparr>],
          newMessage := [], loading := False\<rparr>,
      requests = [rag_request example_world ''why?''],
      console = []\<rparr>"
  by (simp add: sendMessage_def example_props_def example_world_def query_state_def
      trim_def WhiteSpace_def rag_request_def)


lemma example_query_failure:
  "sendMessage example_props failing_world query_state =
     send_failed query_state [rag_request failing_world ''why?''] (AxiosError ''Network Error'')"
  by (simp add: sendMessage_def example_props_def failing_world_def query_state_def
      trim_def WhiteSpace_def)

text \<open>The theorem at a concrete input.\<close>

theorem successful_send_appends_witness:
  "succeeded (sendMessage example_props example_world direct_state)
   \<and> length (messages (final (sendMessage example_props example_world direct_state)))
       = length (messages direct_state) + 1
   \<and> succeeded (sendMessage example_props example_world query_state)
   \<and> length (messages (final (sendMessage example_props example_world query_state)))
       = length (messages query_state) + 2"
proof -
  have d: "succeeded (sendMessage example_props example_world direct_state)"
    by (simp add: example_direct_send succeeded_def)
  have q: "succeeded (sendMessage example_props example_world query_state)"
    by (simp add: example_query_send succeeded_def)
  have nd: "\<not> queryMode direct_state" by (simp add: direct_state_def)
  have nq: "queryMode query_state" by (simp add: query_state_def)
  from successful_send_appends [OF d] nd obtain m where
    "messages (final (sendMessage example_props example_world direct_state))
       = messages direct_state @ [m]"
    by blast
  then have 1: "length (messages (final (sendMessage example_props example_world direct_state)))
       = length (messages direct_state) + 1"
    by simp
  from successful_send_appends [OF q] nq obtain echo resp where
    "messages (final (sendMessage example_props example_world query_state))
       = messages query_state @ [echo, resp]"
    by blast
  then have 2: "length (messages (final (sendMessage example_props example_world query_state)))
       = length (messages query_state) + 2"
    by simp
  from d q 1 2 show ?thesis by blast
qed

text \<open>The theorem at a concrete input.\<close>

theorem input_cleared_iff_success_witness:
  "succeeded (sendMessage example_props example_world direct_state)
   \<and> newMessage (final (sendMessage example_props example_world direct_state)) = []
   \<and> \<not> succeeded (sendMessage example_props failing_world query_state)
   \<and> newMessage (final (sendMessage example_props failing_world query_state)) = ''why?''"
proof -
  have d: "succeeded (sendMessage example_props example_world direct_state)"
    by (simp add: example_direct_send succeeded_def)
  have q: "\<not> succeeded (sendMessage example_props failing_world query_state)"
    by (simp add: example_query_failure succeeded_def send_failed_def)
  have n: "newMessage query_state = ''why?''" by (simp add: query_state_def)
  from d input_cleared_iff_success [of example_props example_world direct_state]
  have 1: "newMessage (final (sendMessage example_props example_world direct_state)) = []"
    by blast
  from q input_cleared_iff_success [of example_props failing_world query_state]
  have "newMessage (final (sendMessage example_props failing_world query_state))
          = newMessage query_state"
    by blast
  with n have 2: "newMessage (final (sendMessage example_props failing_world query_state)) = ''why?''"
    by simp
  from d q 1 2 show ?thesis by blast
qed




section \<open>The source list\<close>

lemma length_source_items:
  "length (source_items ss) = min (length ss) 3 + (if length ss > 3 then 1 else 0)"
  by (simp add: source_items_def)

lemma nth_source_items:
  "i < min (length ss) 3 \<Longrightarrow> source_items ss ! i = source_item (ss ! i)"
  by (simp add: source_items_def nth_append)

lemma summary_source_items:
  "length ss > 3 \<Longrightarrow> source_items ss ! 3 = ''+'' @ string_of_nat (length ss - 3) @ '' more sources''"
  by (simp add: source_items_def nth_append)

lemma unknown_source_item:
  "source_type src \<noteq> ''message'' \<Longrightarrow> source_type src \<noteq> ''document_chunk''
   \<Longrightarrow> source_item src = ''Unknown source''"
  by (simp add: source_item_def)

text \<open>
  Claim C7. For a message of the synthetic sender with \<open>N\<close> sources the list shows
  \<open>min N 3\<close> items, the first sources in order, followed when \<open>N > 3\<close> by one more
  entry reading \<^verbatim>\<open>+{N-3} more sources\<close>; an itemised source whose type is neither
  \<^verbatim>\<open>message\<close> nor \<^verbatim>\<open>document_chunk\<close> shows as \<^verbatim>\<open>Unknown source\<close>.
\<close>

theorem sources_rendering:
  assumes "sender_id m = ''rag-assistant''" and "sources m = Some ss"
  shows "\<exists>items. render_sources m = Some items
     \<and> length items = min (length ss) 3 + (if length ss > 3 then 1 else 0)
     \<and> (\<forall>i < min (length ss) 3. items ! i = source_item (ss ! i))
     \<and> (length ss > 3 \<longrightarrow> items ! 3 = ''+'' @ string_of_nat (length ss - 3) @ '' more sources'')
     \<and> (\<forall>i < min (length ss) 3.
           source_type (ss ! i) \<noteq> ''message'' \<and> source_type (ss ! i) \<noteq> ''document_chunk''
           \<longrightarrow> items ! i = ''Unknown source'')"
proof -
  have "render_sources m = Some (source_items ss)"
    using assms by (simp add: render_sources_def)
  then show ?thesis
    using length_source_items [of ss] nth_source_items [of _ ss] summary_source_items [of ss]
      unknown_source_item
    by (intro exI [of _ "source_items ss"]) simp
qed

lemma example_render_sources:
  "render_sources rag_message =
     Some [''Message from u2'', ''notes.pdf (chunk 12)'', ''Unknown source'', ''+2 more sources'']"
  by code_simp

text \<open>The theorem at a concrete input.\<close>

theorem sources_rendering_witness:
  "sender_id rag_message = ''rag-assistant''
   \<and> render_sources rag_message =
       Some [''Message from u2'', ''notes.pdf (chunk 12)'', ''Unknown source'', ''+2 more sources'']
   \<and> (\<exists>items. render_sources rag_message = Some items \<and> length items = 4
         \<and> items ! 2 = ''Unknown source'' \<and> items ! 3 = ''+2 more sources'')"
proof -
  have s: "sender_id rag_message = ''rag-assistant''" by (simp add: rag_message_def)
  have ss: "sources rag_message =
      Some [example_source ''message'', example_source ''document_chunk'',
            example_source ''web'', example_source ''message'', example_source ''message'']"
    by (simp add: rag_message_def)
  from sources_rendering [OF s ss] obtain items where
    items: "render_sources rag_message = Some items" "length items = 4"
    by auto
  with example_render_sources have "items ! 2 = ''Unknown source''" "items ! 3 = ''+2 more sources''"
    by simp_all
  with s items example_render_sources show ?thesis by simp
qed

section \<open>The order of the store\<close>

lemma sorted_by_timestamp_snoc:
  "sorted_by_timestamp (ms @ [m]) \<longleftrightarrow>
     sorted_by_timestamp ms \<and> (\<forall>x\<in>set ms. not_after x m)"
  by (auto simp: sorted_by_timestamp_def sorted_wrt_append)

lemma sorted_by_timestamp_snoc2:
  "sorted_by_timestamp (ms @ [a, b]) \<longleftrightarrow>
     sorted_by_timestamp ms \<and> (\<forall>x\<in>set ms. not_after x a)
     \<and> (\<forall>x\<in>set ms. not_after x b) \<and> not_after a b"
  by (auto simp: sorted_by_timestamp_def sorted_wrt_append)

lemma example_future_send:
  "messages (final (sendMessage example_props example_world future_state))
     = [example_message ''m9'' 500,
        userQuery example_props example_world \<lparr>rcpt_id = ''u2'', rcpt_name = ''Bob''\<rparr> ''why?'',
        ragResponse example_world \<lparr>rcpt_id = ''u2'', rcpt_name = ''Bob''\<rparr>
          \<lparr>answer = ''42'', rag_sources = Some [example_source ''message'']\<rparr>]"
  by (simp add: sendMessage_def example_props_def example_world_def future_state_def
      trim_def WhiteSpace_def rag_request_def)

text \<open>
  Claim C2, as stated, fails for each of the three operations. A direct send appends the
  server's message without re-sorting: on a sorted store whose only message is stamped 10,
  a successful send whose reply is stamped 5 leaves the store unsorted. A query send
  appends two messages stamped by the local clock: on a store whose message is stamped
  500, with the clock at 101, the store ends unsorted. A fetch whose answer holds a
  timestamp that makes no valid date is stored in the order received.
\<close>

theorem unsorted_after_each_operation:
  "sorted_by_timestamp (messages direct_state)
   \<and> succeeded (sendMessage example_props example_world direct_state)
   \<and> \<not> sorted_by_timestamp (messages (final (sendMessage example_props example_world direct_state)))
   \<and> sorted_by_timestamp (messages future_state)
   \<and> succeeded (sendMessage example_props example_world future_state)
   \<and> \<not> sorted_by_timestamp (messages (final (sendMessage example_props example_world future_state)))
   \<and> succeeded (fetchMessages example_props clipped_world direct_state)
   \<and> \<not> sorted_by_timestamp (messages (final (fetchMessages example_props clipped_world direct_state)))"
proof -
  have 1: "sorted_by_timestamp (messages direct_state)"
    by (simp add: sorted_by_timestamp_def direct_state_def)
  have 2: "succeeded (sendMessage example_props example_world direct_state)"
    by (simp add: example_direct_send succeeded_def)
  have "messages (final (sendMessage example_props example_world direct_state))
          = messages direct_state @ [example_message ''m0'' 5]"
    by (simp add: example_direct_send)
  then have 3: "\<not> sorted_by_timestamp
                    (messages (final (sendMessage example_props example_world direct_state)))"
    by (simp add: sorted_by_timestamp_def direct_state_def example_message_def not_after_def)
  have 4: "sorted_by_timestamp (messages future_state)"
    by (simp add: sorted_by_timestamp_def future_state_def)
  have 5: "succeeded (sendMessage example_props example_world future_state)"
    by (simp add: succeeded_def sendMessage_def example_props_def example_world_def
        future_state_def trim_def WhiteSpace_def)
  have e: "timestamp (userQuery example_props example_world
                         \<lparr>rcpt_id = ''u2'', rcpt_name = ''Bob''\<rparr> ''why?'') = Some 101"
    by (simp add: userQuery_def example_world_def)
  have 6: "\<not> sorted_by_timestamp
                (messages (final (sendMessage example_props example_world future_state)))"
    by (simp add: example_future_send sorted_by_timestamp_def example_message_def not_after_def e)
  have 7: "succeeded (fetchMessages example_props clipped_world direct_state)"
    by (simp add: succeeded_def fetchMessages_def example_props_def clipped_world_def
        example_world_def)
  have 8: "\<not> sorted_by_timestamp
         (messages (final (fetchMessages example_props clipped_world direct_state)))"
    by (simp add: example_clipped_fetch sorted_by_timestamp_def not_after_def example_message_def)
  from 1 2 3 4 5 6 7 8 show ?thesis by blast
qed

text \<open>
  Claim C2, amended. A store that is sorted ascending by timestamp is still sorted after
  \<^verbatim>\<open>fetchMessages\<close> and after \<^verbatim>\<open>sendMessage\<close>, provided that the messages a successful
  fetch receives all carry timestamps that make valid dates, that in direct mode the
  message the server returns is stamped no earlier than every message of the store, and
  that in query mode the local clock read for the echo is no earlier than every message of
  the store and no later than the clock read for the answer.
\<close>

theorem store_order_preserved:
  assumes "sorted_by_timestamp (messages s)"
    and "\<And>r data. recipient p = Some r \<Longrightarrow> get_messages w (fetch_request p w r) = Inr data
           \<Longrightarrow> \<forall>m\<in>set data. valid_timestamp m"
    and "\<And>r m. \<not> queryMode s \<Longrightarrow> recipient p = Some r
           \<Longrightarrow> post_message w (message_request p w r (newMessage s)) = Inr m
           \<Longrightarrow> \<forall>x\<in>set (messages s). not_after x m"
    and "queryMode s \<Longrightarrow>
           (\<forall>x\<in>set (messages s). \<exists>t. timestamp x = Some t \<and> t \<le> now w 1)
           \<and> now w 1 \<le> now w 3"
  shows "sorted_by_timestamp (messages (final (fetchMessages p w s)))
       \<and> sorted_by_timestamp (messages (final (sendMessage p w s)))"
proof
  show "sorted_by_timestamp (messages (final (fetchMessages p w s)))"
  proof (cases "recipient p")
    case None
    with assms(1) show ?thesis by (simp add: fetchMessages_def)
  next
    case (Some r)
    show ?thesis
    proof (cases "get_messages w (fetch_request p w r)")
      case (Inl e)
      with Some assms(1) show ?thesis by (simp add: fetchMessages_def)
    next
      case (Inr data)
      with Some assms(2) have "\<forall>m\<in>set data. valid_timestamp m" by blast
      then have "sorted_by_timestamp (array_sort (sort_compare compare_timestamp) data)"
        by (rule sorted_array_sort)
      with Some Inr show ?thesis by (simp add: fetchMessages_success)
    qed
  qed
next
  show "sorted_by_timestamp (messages (final (sendMessage p w s)))"
  proof (cases rule: sendMessage_outcome [of s p w])
    case blank
    with assms(1) show ?thesis by simp
  next
    case (thrown reqs e)
    with assms(1) show ?thesis by (simp add: send_failed_def)
  next
    case (direct r m)
    with assms(1) assms(3) [of r m] show ?thesis
      by (simp add: sorted_by_timestamp_snoc)
  next
    case (query r d)
    have ts: "timestamp (userQuery p w r (newMessage s)) = Some (now w 1)"
      "timestamp (ragResponse w r d) = Some (now w 3)"
      by (simp_all add: userQuery_def ragResponse_def)
    from query assms(4)
    have b: "\<forall>x\<in>set (messages s). \<exists>t. timestamp x = Some t \<and> t \<le> now w 1"
      and c: "now w 1 \<le> now w 3"
      by simp_all
    from b ts have 1: "\<forall>x\<in>set (messages s). not_after x (userQuery p w r (newMessage s))"
      by (auto simp: not_after_def)
    from b c ts have 2: "\<forall>x\<in>set (messages s). not_after x (ragResponse w r d)"
      by (fastforce simp: not_after_def)
    from c ts have 3: "not_after (userQuery p w r (newMessage s)) (ragResponse w r d)"
      by (simp add: not_after_def)
    from query assms(1) 1 2 3 show ?thesis
      by (simp add: sorted_by_timestamp_snoc2)
  qed
qed

text \<open>The theorem at a concrete input.\<close>

theorem store_order_preserved_witness:
  "sorted_by_timestamp (messages direct_state)
   \<and> sorted_by_timestamp (messages (final (fetchMessages example_props timely_world direct_state)))
   \<and> length (messages (final (fetchMessages example_props timely_world direct_state))) = 3
   \<and> sorted_by_timestamp (messages (final (sendMessage example_props timely_world direct_state)))
   \<and> length (messages (final (sendMessage example_props timely_world direct_state))) = 2
   \<and> sorted_by_timestamp (messages query_state)
   \<and> sorted_by_timestamp (messages (final (sendMessage example_props timely_world query_state)))
   \<and> length (messages (final (sendMessage example_props timely_world query_state))) = 3"
proof -
  have sd: "sorted_by_timestamp (messages direct_state)"
    by (simp add: sorted_by_timestamp_def direct_state_def)
  have sq: "sorted_by_timestamp (messages query_state)"
    by (simp add: sorted_by_timestamp_def query_state_def)
  have valid: "\<forall>m\<in>set data. valid_timestamp m"
    if "get_messages timely_world (fetch_request example_props timely_world r) = Inr data"
    for r data
  proof -
    from that have "data = [example_message ''m3'' 30, example_message ''m1'' 10,
                            example_message ''m2'' 10]"
      by (simp add: timely_world_def example_world_def)
    then show ?thesis
      by (simp add: valid_timestamp_def Date_time_def example_message_def)
  qed
  have d: "sorted_by_timestamp (messages (final (fetchMessages example_props timely_world direct_state)))
       \<and> sorted_by_timestamp (messages (final (sendMessage example_props timely_world direct_state)))"
  proof (rule store_order_preserved)
    show "sorted_by_timestamp (messages direct_state)" by (rule sd)
  next
    fix r data
    assume "get_messages timely_world (fetch_request example_props timely_world r) = Inr data"
    then show "\<forall>m\<in>set data. valid_timestamp m" by (rule valid)
  next
    fix r m
    assume "post_message timely_world
              (message_request example_props timely_world r (newMessage direct_state)) = Inr m"
    then have "m = example_message ''m4'' 40"
      by (simp add: timely_world_def example_world_def)
    then show "\<forall>x\<in>set (messages direct_state). not_after x m"
      by (simp add: direct_state_def example_message_def not_after_def)
  next
    assume "queryMode direct_state"
    then show "(\<forall>x\<in>set (messages direct_state). \<exists>t. timestamp x = Some t \<and> t \<le> now timely_world 1)
               \<and> now timely_world 1 \<le> now timely_world 3"
      by (simp add: direct_state_def)
  qed
  have q: "sorted_by_timestamp (messages (final (fetchMessages example_props timely_world query_state)))
       \<and> sorted_by_timestamp (messages (final (sendMessage example_props timely_world query_state)))"
  proof (rule store_order_preserved)
    show "sorted_by_timestamp (messages query_state)" by (rule sq)
  next
    fix r data
    assume "get_messages timely_world (fetch_request example_props timely_world r) = Inr data"
    then show "\<forall>m\<in>set data. valid_timestamp m" by (rule valid)
  next
    fix r m
    assume "\<not> queryMode query_state"
    then show "\<forall>x\<in>set (messages query_state). not_after x m"
      by (simp add: query_state_def)
  next
    show "(\<forall>x\<in>set (messages query_state). \<exists>t. timestamp x = Some t \<and> t \<le> now timely_world 1)
               \<and> now timely_world 1 \<le> now timely_world 3"
      by (simp add: query_state_def timely_world_def example_world_def example_message_def)
  qed
  have lf: "length (messages (final (fetchMessages example_props timely_world direct_state))) = 3"
    by (simp add: fetchMessages_def example_props_def timely_world_def example_world_def
        sort_compare_def compare_timestamp_def Date_time_def example_message_def)
  have ld: "length (messages (final (sendMessage example_props timely_world direct_state))) = 2"
    by (simp add: sendMessage_def example_props_def timely_world_def example_world_def
        direct_state_def trim_def WhiteSpace_def)
  have lq: "length (messages (final (sendMessage example_props timely_world query_state))) = 3"
    by (simp add: sendMessage_def example_props_def timely_world_def example_world_def
        query_state_def trim_def WhiteSpace_def)
  from sd sq d q lf ld lq show ?thesis by blast
qed

section \<open>Guard and router\<close>





















lemma render_layout_absent:
  "tok = None \<or> tok = Some [] \<Longrightarrow>
     render_branch tok (layout_route # rest) = Some (Redirected ''/login'')"
  by (auto simp: layout_route_def ProtectedRoute_def)

lemma render_layout_present:
  "tok = Some t \<Longrightarrow> t \<noteq> [] \<Longrightarrow>
     render_branch tok (layout_route # rest) = Some (Layout None (render_branch tok rest))"
  by (simp add: layout_route_def ProtectedRoute_def)

text \<open>
  Claim C8. The session guard redirects to \<^verbatim>\<open>/login\<close> whenever the token is absent or
  empty, and then nothing of the guarded branch is mounted, whatever the rest of the branch
  is; whenever a non-empty token is present it mounts its children, the layout. The guard
  is a total function of the token alone: it has no failure value, and it is evaluated when
  the branch is rendered, before anything below it.
\<close>

theorem guard_decision:
  "(tok = None \<or> tok = Some [] \<longrightarrow>
       ProtectedRoute tok = Redirect ''/login''
       \<and> (\<forall>rest. render_branch tok (layout_route # rest) = Some (Redirected ''/login'')))
   \<and> (\<forall>t. tok = Some t \<and> t \<noteq> [] \<longrightarrow>
       ProtectedRoute tok = Render_children
       \<and> (\<forall>rest. render_branch tok (layout_route # rest)
                    = Some (Layout None (render_branch tok rest))))"
  using render_layout_absent [of tok] render_layout_present [of tok]
  by (auto simp: ProtectedRoute_def)

text \<open>The theorem at a concrete input.\<close>

theorem guard_decision_witness:
  "ProtectedRoute None = Redirect ''/login''
   \<and> ProtectedRoute (Some []) = Redirect ''/login''
   \<and> ProtectedRoute (Some ''tok'') = Render_children
   \<and> render_branch None [layout_route, index_route] = Some (Redirected ''/login'')"
  using guard_decision [of None] guard_decision [of "Some []"] guard_decision [of "Some ''tok''"]
  by simp





text \<open>
  An escaped letter is decoded before matching: \<^verbatim>\<open>/%6Cogin\<close> is the login page.
\<close>

lemma escaped_login: "visit None ''/%6Cogin'' = Page LoginPage"
  by code_simp

text \<open>
  At the root the index route's redirect is not what a visit ends with. Without a token the
  guard redirects to \<^verbatim>\<open>/login\<close>. With a token the layout is mounted, which renders its
  \<^verbatim>\<open>children\<close> prop and no outlet, so the redirect below it is not mounted.
\<close>

lemma root_without_token_goes_to_login: "visit None ''/'' = Redirected ''/login''"
  by code_simp

lemma root_with_token_shows_layout_only: "visit (Some ''tok'') ''/'' = Layout_shell None"
  by code_simp

lemma on_recipient_change_fetches:
  "recipient p \<noteq> None \<Longrightarrow> recipientType p \<noteq> [] \<Longrightarrow>
     on_recipient_change p w s = fetchMessages p w s"
  by (simp add: on_recipient_change_def)

end
